theory Spec2Isabelle
  imports Complex_Main "HOL-Library.Sublist"
begin

section \<open>Values of the JavaScript runtime\<close>

text \<open>
  The library (\<^verbatim>\<open>src/index.ts\<close>) wraps the objects of a browser driver and adds
  matchers and polling assertions.  Every operation of the library is an \<^verbatim>\<open>async\<close>
  function.  The embedding makes three things explicit that the TypeScript leaves to the
  runtime: the value a promise settles with, the wall clock read by \<^verbatim>\<open>Date.now()\<close>,
  and the answers of the driver.

  Errors are values.  \<^verbatim>\<open>UnmatchError\<close> is the class of the source (its \<^verbatim>\<open>stack\<close>
  field is not modelled); \<^verbatim>\<open>Error\<close>, \<^verbatim>\<open>TypeError\<close> and \<^verbatim>\<open>SyntaxError\<close> are the
  built-in classes; \<^verbatim>\<open>DriverError\<close> stands for whatever the driver rejects with.
  The argument is the \<^verbatim>\<open>message\<close>.
\<close>

datatype error =
    UnmatchError string
  | Error string
  | TypeError string
  | SyntaxError string
  | DriverError string

text \<open>
  A value that is an \<^verbatim>\<open>Error\<close> or \<^verbatim>\<open>undefined\<close>: what a matcher returns, what the
  variable \<^verbatim>\<open>error\<close> of the polling loops holds, and what \<^verbatim>\<open>throw error\<close> throws.
  \<open>None\<close> is \<^verbatim>\<open>undefined\<close>.
\<close>

type_synonym maybe_error = "error option"

text \<open>A settled promise: fulfilled with a value, or rejected with the thrown value.\<close>

datatype 'a settled = Fulfilled 'a | Rejected maybe_error

text \<open>
  An asynchronous operation, started when the clock reads \<open>t\<close> (milliseconds, the value of
  \<^verbatim>\<open>Date.now()\<close>), settles with a value after a number of milliseconds.  The duration
  is a natural number: time does not run backwards.  An operation that may never settle
  (a polling loop whose deadline never comes) has an optional result, \<open>None\<close> when it
  never settles.
\<close>

type_synonym 'a task = "int \<Rightarrow> 'a settled \<times> nat"

text \<open>
  A string read from the page is a string or \<^verbatim>\<open>null\<close> (\<^verbatim>\<open>getAttribute\<close> of an absent
  attribute).  \<open>js_string\<close> is what a template literal \<^verbatim>\<open>${v}\<close> and
  \<^verbatim>\<open>RegExp.prototype.test(v)\<close> make of it.
\<close>

definition js_string :: "string option \<Rightarrow> string" where
  "js_string v = (case v of None \<Rightarrow> ''null'' | Some s \<Rightarrow> s)"

text \<open>
  A regular expression object: its source text and flags (for \<^verbatim>\<open>${expected}\<close>) and the
  language it accepts (for \<^verbatim>\<open>expected.test(s)\<close>).  The engine itself belongs to the
  runtime; a stateful (global or sticky) expression is outside the model.
\<close>

record regexp =
  re_source :: string
  re_flags :: string
  re_test :: "string \<Rightarrow> bool"

definition regexp_string :: "regexp \<Rightarrow> string" where
  "regexp_string r = ''/'' @ re_source r @ ''/'' @ re_flags r"

text \<open>The type \<^verbatim>\<open>string | RegExp\<close> of a matcher's second argument.\<close>

datatype expected = Str string | Re regexp

text \<open>
  A value of the type \<^verbatim>\<open>number\<close>: a finite number, one of the infinities, or \<^verbatim>\<open>NaN\<close>.
  Finite numbers are rationals, which every double is; sums are exact (the rounding of
  doubles plays no part for clock readings and timeouts in milliseconds).
\<close>

datatype js_number = Num rat | Infinity | MinusInfinity | NaN

text \<open>Decimal rendering of an integer in a template literal.\<close>

definition digit_char :: "nat \<Rightarrow> char" where
  "digit_char d = ''0123456789'' ! d"

fun show_nat :: "nat \<Rightarrow> string" where
  "show_nat n =
     (if n < 10 then [digit_char n]
      else show_nat (n div 10) @ [digit_char (n mod 10)])"

declare show_nat.simps [simp del]

definition show_int :: "int \<Rightarrow> string" where
  "show_int i = (if i < 0 then ''-'' @ show_nat (nat (- i)) else show_nat (nat i))"

section \<open>The driver and the runtime\<close>

text \<open>
  Driver objects are references.  A query runs inside a page or inside an element.
\<close>

type_synonym node = nat
type_synonym page_ref = nat
type_synonym browser_ref = nat

datatype scope = InPage page_ref | InElement node

text \<open>
  Everything the library calls and does not define: the driver's \<^verbatim>\<open>evaluate\<close> for the two
  functions passed to it, its \<^verbatim>\<open>$\<close> and \<^verbatim>\<open>$$\<close>, \<^verbatim>\<open>newPage\<close>, the driver's
  \<^verbatim>\<open>launch\<close>, how late a timer set by \<^verbatim>\<open>setTimeout\<close> fires, the \<^verbatim>\<open>RegExp\<close>
  constructor (which throws a \<^verbatim>\<open>SyntaxError\<close> on an invalid pattern), how far the clock
  moves between two readings of \<^verbatim>\<open>Date.now()\<close> with synchronous code in between
  (\<open>sync_lag\<close>: a polling function reads the clock for \<^verbatim>\<open>start\<close> and again for the
  first test of its loop), and how the engine prints a number that is not an integer
  below \<^verbatim>\<open>1e21\<close>.  Each answer may depend on the time of the call: the page changes
  while the library polls.
\<close>

record runtime =
  evaluate_textContent :: "node \<Rightarrow> string option task"
  evaluate_getAttribute :: "node \<Rightarrow> string \<Rightarrow> string option task"
  driver_query :: "scope \<Rightarrow> string \<Rightarrow> node option task"
  driver_query_all :: "scope \<Rightarrow> string \<Rightarrow> node list task"
  driver_newPage :: "browser_ref \<Rightarrow> page_ref task"
  orgLaunch :: "browser_ref task"
  timer_lag :: "int \<Rightarrow> nat"
  sync_lag :: "int \<Rightarrow> nat"
  RegExp :: "string \<Rightarrow> error + regexp"
  Number_toString :: "rat \<Rightarrow> string"

text \<open>
  \<^verbatim>\<open>${n}\<close> for a number: the decimal digits of an integer below \<^verbatim>\<open>1e21\<close> in absolute
  value, the names of the three special values, and the engine's own text (a fraction, an
  exponent) for every other number.
\<close>

definition number_string :: "runtime \<Rightarrow> js_number \<Rightarrow> string" where
  "number_string rt n =
     (case n of
        Num q \<Rightarrow>
          (if q = of_int \<lfloor>q\<rfloor> \<and> \<bar>q\<bar> < 10 ^ 21 then show_int \<lfloor>q\<rfloor>
           else Number_toString rt q)
      | Infinity \<Rightarrow> ''Infinity''
      | MinusInfinity \<Rightarrow> ''-Infinity''
      | NaN \<Rightarrow> ''NaN'')"

section \<open>Wrapped objects\<close>

text \<open>
  \<^verbatim>\<open>interface LaunchOptions { matchingTimeout: number }\<close>.  \<open>None\<close> is \<^verbatim>\<open>undefined\<close>,
  the value the field has in an object that lacks it.
\<close>

record LaunchOptions =
  matchingTimeout :: "js_number option"

text \<open>
  A wrapped object is the driver's object together with the \<^verbatim>\<open>options\<close> its methods
  close over.
\<close>

record ElementHandle =
  el_handle :: node
  el_options :: LaunchOptions

record Page =
  pg_page :: page_ref
  pg_options :: LaunchOptions

record Browser =
  br_browser :: browser_ref
  br_options :: LaunchOptions

text \<open>The \<^verbatim>\<open>parent\<close> of a lazy collection is the wrapped page or element it came from.\<close>

datatype parent = PageParent Page | ElementParent ElementHandle

text \<open>\<^verbatim>\<open>class ElementHandles\<close>: a selector, its parent and the options; no other field.\<close>

record ElementHandles =
  selector :: string
  options :: LaunchOptions
  parent :: parent

text \<open>
  \<^verbatim>\<open>wrapElementHandle(elementHandle, options)\<close>.  The object literal can be built from any
  argument, but \<^verbatim>\<open>(elementHandle as any).__proto__\<close> throws a \<^verbatim>\<open>TypeError\<close> when the
  argument is \<^verbatim>\<open>null\<close> or \<^verbatim>\<open>undefined\<close> (\<open>None\<close>).
\<close>

definition wrapElementHandle :: "node option \<Rightarrow> LaunchOptions \<Rightarrow> error + ElementHandle" where
  "wrapElementHandle elementHandle opts =
     (case elementHandle of
        None \<Rightarrow> Inl (TypeError ''Cannot read properties of undefined (reading __proto__)'')
      | Some h \<Rightarrow> Inr \<lparr>el_handle = h, el_options = opts\<rparr>)"

definition wrapPage :: "page_ref \<Rightarrow> LaunchOptions \<Rightarrow> Page" where
  "wrapPage page opts = \<lparr>pg_page = page, pg_options = opts\<rparr>"

definition wrapBrowser :: "browser_ref \<Rightarrow> LaunchOptions \<Rightarrow> Browser" where
  "wrapBrowser browser opts = \<lparr>br_browser = browser, br_options = opts\<rparr>"

text \<open>\<^verbatim>\<open>array.map(it => wrapElementHandle(it, options))\<close>: the first throw ends the map.\<close>

fun wrap_each :: "node list \<Rightarrow> LaunchOptions \<Rightarrow> error + ElementHandle list" where
  "wrap_each [] opts = Inr []"
| "wrap_each (it # its) opts =
     (case wrapElementHandle (Some it) opts of
        Inl e \<Rightarrow> Inl e
      | Inr w \<Rightarrow> (case wrap_each its opts of Inl e \<Rightarrow> Inl e | Inr ws \<Rightarrow> Inr (w # ws)))"

subsection \<open>Readers of a wrapped element\<close>

definition el_attr :: "runtime \<Rightarrow> ElementHandle \<Rightarrow> string \<Rightarrow> string option task" where
  "el_attr rt el attribute = evaluate_getAttribute rt (el_handle el) attribute"

definition el_text :: "runtime \<Rightarrow> ElementHandle \<Rightarrow> string option task" where
  "el_text rt el = evaluate_textContent rt (el_handle el)"

definition el_class :: "runtime \<Rightarrow> ElementHandle \<Rightarrow> string option task" where
  "el_class rt el = el_attr rt el ''class''"

definition el_style :: "runtime \<Rightarrow> ElementHandle \<Rightarrow> string option task" where
  "el_style rt el = el_attr rt el ''style''"

definition el_value :: "runtime \<Rightarrow> ElementHandle \<Rightarrow> string option task" where
  "el_value rt el = el_attr rt el ''value''"

section \<open>Matchers\<close>

text \<open>
  \<^verbatim>\<open>interface Matcher { (element, expected: string | RegExp): Promise<Error> }\<close>.
  A matcher reaches the page through the methods of the element, hence the runtime.
\<close>

type_synonym Matcher = "runtime \<Rightarrow> ElementHandle \<Rightarrow> expected \<Rightarrow> maybe_error task"

text \<open>
  The four exported matchers have one body, with the reader and the noun of the message
  changed.  \<open>compare_with\<close> is that body after the \<^verbatim>\<open>await\<close>: strict inequality against
  a string (\<^verbatim>\<open>null\<close> differs from every string), \<^verbatim>\<open>test\<close> against a regular
  expression.
\<close>

definition compare_with :: "string \<Rightarrow> expected \<Rightarrow> string option \<Rightarrow> maybe_error" where
  "compare_with noun expval actual =
     (case expval of
        Str s \<Rightarrow>
          (if Some s \<noteq> actual then
             Some (UnmatchError
               (''Failed to match with element '' @ noun @ ''. Expected '' @ noun @ '' is \"''
                 @ s @ ''\", but was \"'' @ js_string actual @ ''\" appeared.''))
           else None)
      | Re r \<Rightarrow>
          (if \<not> re_test r (js_string actual) then
             Some (UnmatchError
               (''Failed to match with element '' @ noun @ ''. Expected matcher is \"''
                 @ regexp_string r @ ''\", but was \"'' @ js_string actual @ ''\" appeared.''))
           else None))"

definition Text :: Matcher where
  "Text rt element expval t =
     (case el_text rt element t of
        (Rejected x, d) \<Rightarrow> (Rejected x, d)
      | (Fulfilled text, d) \<Rightarrow> (Fulfilled (compare_with ''text'' expval text), d))"

definition Value :: Matcher where
  "Value rt element expval t =
     (case el_value rt element t of
        (Rejected x, d) \<Rightarrow> (Rejected x, d)
      | (Fulfilled v, d) \<Rightarrow> (Fulfilled (compare_with ''value'' expval v), d))"

definition Class :: Matcher where
  "Class rt element expval t =
     (case el_class rt element t of
        (Rejected x, d) \<Rightarrow> (Rejected x, d)
      | (Fulfilled clazz, d) \<Rightarrow> (Fulfilled (compare_with ''class'' expval clazz), d))"

definition Style :: Matcher where
  "Style rt element expval t =
     (case el_style rt element t of
        (Rejected x, d) \<Rightarrow> (Rejected x, d)
      | (Fulfilled style, d) \<Rightarrow> (Fulfilled (compare_with ''style'' expval style), d))"

text \<open>
  \<^verbatim>\<open>createMatcher(attribute, matchFn)\<close>.  The function it returns takes the element only.
  \<^verbatim>\<open>matchFn\<close> is the caller's code: it returns a boolean or throws.
\<close>

definition createMatcher :: "string \<Rightarrow> (string option \<Rightarrow> maybe_error + bool) \<Rightarrow> Matcher" where
  "createMatcher attribute matchFn rt element expval t =
     (case el_attr rt element attribute t of
        (Rejected x, d) \<Rightarrow> (Rejected x, d)
      | (Fulfilled attr, d) \<Rightarrow>
          (case matchFn attr of
             Inl x \<Rightarrow> (Rejected x, d)
           | Inr ok \<Rightarrow>
               (if \<not> ok then
                  (Fulfilled (Some (UnmatchError
                     (''Failed to match with element attribute \"'' @ attribute
                       @ ''\". Actual value was \"'' @ js_string attr @ ''\".''))), d)
                else (Fulfilled None, d))))"

section \<open>Queries of wrapped elements and pages\<close>

text \<open>
  \<^verbatim>\<open>$\<close>, \<^verbatim>\<open>$$\<close> and \<^verbatim>\<open>$$lazy\<close> of a wrapped element: the driver's answer is wrapped
  with the options of the element queried.  \<^verbatim>\<open>$\<close> of the driver resolves to \<^verbatim>\<open>null\<close>
  when nothing matches.
\<close>

definition elem_dollar :: "runtime \<Rightarrow> ElementHandle \<Rightarrow> string \<Rightarrow> ElementHandle task" where
  "elem_dollar rt el sel t =
     (case driver_query rt (InElement (el_handle el)) sel t of
        (Rejected x, d) \<Rightarrow> (Rejected x, d)
      | (Fulfilled h, d) \<Rightarrow>
          (case wrapElementHandle h (el_options el) of
             Inl e \<Rightarrow> (Rejected (Some e), d)
           | Inr w \<Rightarrow> (Fulfilled w, d)))"

definition elem_dollar_dollar :: "runtime \<Rightarrow> ElementHandle \<Rightarrow> string \<Rightarrow> ElementHandle list task" where
  "elem_dollar_dollar rt el sel t =
     (case driver_query_all rt (InElement (el_handle el)) sel t of
        (Rejected x, d) \<Rightarrow> (Rejected x, d)
      | (Fulfilled hs, d) \<Rightarrow>
          (case wrap_each hs (el_options el) of
             Inl e \<Rightarrow> (Rejected (Some e), d)
           | Inr ws \<Rightarrow> (Fulfilled ws, d)))"

definition elem_dollar_dollar_lazy :: "ElementHandle \<Rightarrow> string \<Rightarrow> ElementHandles task" where
  "elem_dollar_dollar_lazy extended sel t =
     (Fulfilled \<lparr>selector = sel, options = el_options extended, parent = ElementParent extended\<rparr>, 0)"

definition page_dollar :: "runtime \<Rightarrow> Page \<Rightarrow> string \<Rightarrow> ElementHandle task" where
  "page_dollar rt pg sel t =
     (case driver_query rt (InPage (pg_page pg)) sel t of
        (Rejected x, d) \<Rightarrow> (Rejected x, d)
      | (Fulfilled h, d) \<Rightarrow>
          (case wrapElementHandle h (pg_options pg) of
             Inl e \<Rightarrow> (Rejected (Some e), d)
           | Inr w \<Rightarrow> (Fulfilled w, d)))"

definition page_dollar_dollar :: "runtime \<Rightarrow> Page \<Rightarrow> string \<Rightarrow> ElementHandle list task" where
  "page_dollar_dollar rt pg sel t =
     (case driver_query_all rt (InPage (pg_page pg)) sel t of
        (Rejected x, d) \<Rightarrow> (Rejected x, d)
      | (Fulfilled hs, d) \<Rightarrow>
          (case wrap_each hs (pg_options pg) of
             Inl e \<Rightarrow> (Rejected (Some e), d)
           | Inr ws \<Rightarrow> (Fulfilled ws, d)))"

definition page_dollar_dollar_lazy :: "Page \<Rightarrow> string \<Rightarrow> ElementHandles task" where
  "page_dollar_dollar_lazy newPage sel t =
     (Fulfilled \<lparr>selector = sel, options = pg_options newPage, parent = PageParent newPage\<rparr>, 0)"

text \<open>\<^verbatim>\<open>this.parent.$$(this.selector)\<close> of a lazy collection.\<close>

definition parent_dollar_dollar :: "runtime \<Rightarrow> parent \<Rightarrow> string \<Rightarrow> ElementHandle list task" where
  "parent_dollar_dollar rt p sel =
     (case p of
        PageParent pg \<Rightarrow> page_dollar_dollar rt pg sel
      | ElementParent el \<Rightarrow> elem_dollar_dollar rt el sel)"

definition newPage :: "runtime \<Rightarrow> Browser \<Rightarrow> Page task" where
  "newPage rt b t =
     (case driver_newPage rt (br_browser b) t of
        (Rejected x, d) \<Rightarrow> (Rejected x, d)
      | (Fulfilled page, d) \<Rightarrow> (Fulfilled (wrapPage page (br_options b)), d))"

text \<open>
  \<^verbatim>\<open>launch(options?)\<close>: \<^verbatim>\<open>options || { matchingTimeout: 10000 }\<close>.  An absent argument
  (\<open>None\<close>) is falsy; an object is truthy whatever its fields.
\<close>

definition launch :: "runtime \<Rightarrow> LaunchOptions option \<Rightarrow> Browser task" where
  "launch rt opts t =
     (case orgLaunch rt t of
        (Rejected x, d) \<Rightarrow> (Rejected x, d)
      | (Fulfilled browser, d) \<Rightarrow>
          (Fulfilled (wrapBrowser browser
             (case opts of None \<Rightarrow> \<lparr>matchingTimeout = Some (Num 10000)\<rparr>
              | Some given \<Rightarrow> given)), d))"

section \<open>Polling assertions\<close>

text \<open>
  \<^verbatim>\<open>sleep(ms)\<close>: a timer fires no earlier than asked.
\<close>

definition sleep :: "runtime \<Rightarrow> nat \<Rightarrow> unit task" where
  "sleep rt ms t = (Fulfilled (), ms + timer_lag rt t)"

text \<open>
  The loop condition \<^verbatim>\<open>start + options.matchingTimeout > Date.now()\<close>.  With
  \<^verbatim>\<open>matchingTimeout\<close> undefined or \<^verbatim>\<open>NaN\<close> the sum is \<^verbatim>\<open>NaN\<close> and the comparison
  is false; with \<^verbatim>\<open>Infinity\<close> it is true at every time.
\<close>

definition before_deadline :: "int \<Rightarrow> js_number option \<Rightarrow> int \<Rightarrow> bool" where
  "before_deadline start timeout now =
     (case timeout of
        None \<Rightarrow> False
      | Some (Num ms) \<Rightarrow> of_int start + ms > of_int now
      | Some Infinity \<Rightarrow> True
      | Some MinusInfinity \<Rightarrow> False
      | Some NaN \<Rightarrow> False)"

text \<open>
  The \<^verbatim>\<open>while\<close> loop of \<^verbatim>\<open>shouldEqual\<close>.  \<open>err\<close> is the variable \<^verbatim>\<open>error\<close>, \<open>now\<close>
  the reading of the clock when the condition is evaluated.  The check that follows starts
  at that reading: the code reads no clock between the test and the call, and what the
  clock gains there is part of the duration of the check.  The result carries the time at
  which the function settles; the loop has no result when it never ends.
\<close>

partial_function (option) shouldEqual_loop ::
  "runtime \<Rightarrow> ElementHandle \<Rightarrow> Matcher \<Rightarrow> expected \<Rightarrow> int \<Rightarrow> maybe_error \<Rightarrow> int
     \<Rightarrow> (unit settled \<times> int) option" where
  "shouldEqual_loop rt extended matcher expval start err now =
     (if before_deadline start (matchingTimeout (el_options extended)) now then
        (case matcher rt extended expval now of
           (Rejected x, d) \<Rightarrow> Some (Rejected x, now + int d)
         | (Fulfilled None, d) \<Rightarrow> Some (Fulfilled (), now + int d)
         | (Fulfilled (Some e), d) \<Rightarrow>
             shouldEqual_loop rt extended matcher expval start (Some e)
               (now + int d + int (snd (sleep rt 100 (now + int d)))))
      else Some (Rejected err, now))"

text \<open>
  \<^verbatim>\<open>shouldEqual\<close>: \<^verbatim>\<open>start\<close> is the clock at the call; the loop condition is first
  tested at the next reading of the clock.  The result is the outcome and the duration.
\<close>

definition shouldEqual ::
  "runtime \<Rightarrow> ElementHandle \<Rightarrow> Matcher \<Rightarrow> string \<Rightarrow> int \<Rightarrow> (unit settled \<times> nat) option" where
  "shouldEqual rt extended matcher expected_string t =
     (case shouldEqual_loop rt extended matcher (Str expected_string) t None
             (t + int (sync_lag rt t)) of
        None \<Rightarrow> None
      | Some (r, t') \<Rightarrow> Some (r, nat (t' - t)))"

text \<open>
  \<^verbatim>\<open>shouldMatch\<close> reads \<^verbatim>\<open>start\<close>, then turns a string into a regular expression;
  the constructor may throw, which rejects the call before the loop.  The loop is a copy of
  the one above.
\<close>

partial_function (option) shouldMatch_loop ::
  "runtime \<Rightarrow> ElementHandle \<Rightarrow> Matcher \<Rightarrow> regexp \<Rightarrow> int \<Rightarrow> maybe_error \<Rightarrow> int
     \<Rightarrow> (unit settled \<times> int) option" where
  "shouldMatch_loop rt extended matcher regexp start err now =
     (if before_deadline start (matchingTimeout (el_options extended)) now then
        (case matcher rt extended (Re regexp) now of
           (Rejected x, d) \<Rightarrow> Some (Rejected x, now + int d)
         | (Fulfilled None, d) \<Rightarrow> Some (Fulfilled (), now + int d)
         | (Fulfilled (Some e), d) \<Rightarrow>
             shouldMatch_loop rt extended matcher regexp start (Some e)
               (now + int d + int (snd (sleep rt 100 (now + int d)))))
      else Some (Rejected err, now))"

text \<open>\<^verbatim>\<open>typeof expected === "string" ? RegExp(expected) : expected\<close>.\<close>

definition regexp_of :: "runtime \<Rightarrow> expected \<Rightarrow> error + regexp" where
  "regexp_of rt expval = (case expval of Str s \<Rightarrow> RegExp rt s | Re r \<Rightarrow> Inr r)"

definition shouldMatch ::
  "runtime \<Rightarrow> ElementHandle \<Rightarrow> Matcher \<Rightarrow> expected \<Rightarrow> int \<Rightarrow> (unit settled \<times> nat) option" where
  "shouldMatch rt extended matcher expval t =
     (case regexp_of rt expval of
        Inl e \<Rightarrow> Some (Rejected (Some e), 0)
      | Inr regexp \<Rightarrow>
          (case shouldMatch_loop rt extended matcher regexp t None (t + int (sync_lag rt t)) of
             None \<Rightarrow> None
           | Some (r, t') \<Rightarrow> Some (r, nat (t' - t))))"

section \<open>The lazy collection\<close>

text \<open>
  \<^verbatim>\<open>get(index)\<close> is
  \<^verbatim>\<open>wrapElementHandle(await this.parent.$$(this.selector)[index], this.options)\<close>.
  Member access binds tighter than \<^verbatim>\<open>await\<close>: the index is applied to the promise that
  \<^verbatim>\<open>$$\<close> returns, not to the array it resolves to.  A promise has no numbered property,
  so the value is \<^verbatim>\<open>undefined\<close> whatever the promise and the index are; awaiting it
  takes no time.
\<close>

definition promise_index :: "'a task \<Rightarrow> int \<Rightarrow> int \<Rightarrow> node option" where
  "promise_index started_query t index = None"

definition get :: "runtime \<Rightarrow> ElementHandles \<Rightarrow> int \<Rightarrow> ElementHandle task" where
  "get rt this index t =
     (case wrapElementHandle
             (promise_index (parent_dollar_dollar rt (parent this) (selector this)) t index)
             (options this) of
        Inl e \<Rightarrow> (Rejected (Some e), 0)
      | Inr w \<Rightarrow> (Fulfilled w, 0))"

text \<open>
  The message of \<^verbatim>\<open>shouldHaveCount\<close>.  \<^verbatim>\<open>count\<close> is any number; \<^verbatim>\<open>size\<close> is the
  length of an array.
\<close>

definition count_message :: "runtime \<Rightarrow> js_number \<Rightarrow> nat \<Rightarrow> string" where
  "count_message rt count size_seen =
     ''Failed to match element counts. Expected count is '' @ number_string rt count
       @ '' but was '' @ show_nat size_seen"

partial_function (option) shouldHaveCount_loop ::
  "runtime \<Rightarrow> ElementHandles \<Rightarrow> js_number \<Rightarrow> int \<Rightarrow> maybe_error \<Rightarrow> int
     \<Rightarrow> (unit settled \<times> int) option" where
  "shouldHaveCount_loop rt this count start err now =
     (if before_deadline start (matchingTimeout (options this)) now then
        (case parent_dollar_dollar rt (parent this) (selector this) now of
           (Rejected x, d) \<Rightarrow> Some (Rejected x, now + int d)
         | (Fulfilled items, d) \<Rightarrow>
             (if Num (of_nat (length items)) \<noteq> count then
                shouldHaveCount_loop rt this count start
                  (Some (Error (count_message rt count (length items))))
                  (now + int d + int (snd (sleep rt 100 (now + int d))))
              else Some (Fulfilled (), now + int d)))
      else Some (Rejected err, now))"

definition shouldHaveCount ::
  "runtime \<Rightarrow> ElementHandles \<Rightarrow> js_number \<Rightarrow> int \<Rightarrow> (unit settled \<times> nat) option" where
  "shouldHaveCount rt this count t =
     (case shouldHaveCount_loop rt this count t None (t + int (sync_lag rt t)) of
        None \<Rightarrow> None
      | Some (r, t') \<Rightarrow> Some (r, nat (t' - t)))"

text \<open>
  \<^verbatim>\<open>Promise.all\<close> over promises started together: fulfilled with all the values, in the
  order of the array, when the slowest is; rejected with the rejection that comes first.
\<close>

fun first_rejection :: "('u settled \<times> nat) list \<Rightarrow> (maybe_error \<times> nat) option" where
  "first_rejection [] = None"
| "first_rejection ((Fulfilled v, d) # ps) = first_rejection ps"
| "first_rejection ((Rejected x, d) # ps) =
     (case first_rejection ps of
        None \<Rightarrow> Some (x, d)
      | Some (y, d') \<Rightarrow> (if d' < d then Some (y, d') else Some (x, d)))"

fun fulfilled_values :: "('u settled \<times> nat) list \<Rightarrow> 'u list" where
  "fulfilled_values [] = []"
| "fulfilled_values ((Fulfilled v, d) # ps) = v # fulfilled_values ps"
| "fulfilled_values ((Rejected x, d) # ps) = fulfilled_values ps"

definition promise_all :: "('u settled \<times> nat) list \<Rightarrow> 'u list settled \<times> nat" where
  "promise_all ps =
     (case first_rejection ps of
        Some (x, d) \<Rightarrow> (Rejected x, d)
      | None \<Rightarrow> (Fulfilled (fulfilled_values ps), fold max (map snd ps) 0))"

text \<open>
  \<^verbatim>\<open>map(cb)\<close>: the callbacks receive the elements as the parent's \<^verbatim>\<open>$$\<close> wrapped them.
\<close>

definition map_lazy :: "runtime \<Rightarrow> ElementHandles \<Rightarrow> (ElementHandle \<Rightarrow> 'u task) \<Rightarrow> 'u list task" where
  "map_lazy rt this cb t =
     (case parent_dollar_dollar rt (parent this) (selector this) t of
        (Rejected x, d) \<Rightarrow> (Rejected x, d)
      | (Fulfilled items, d) \<Rightarrow>
          (case promise_all (map (\<lambda>it. cb it (t + int d)) items) of
             (r, d') \<Rightarrow> (r, d + d')))"

text \<open>
  \<^verbatim>\<open>forEach(cb)\<close>: the \<^verbatim>\<open>for\<close> loop over the items.  The callback is synchronous; what
  it does is a change of the caller's state \<open>'s\<close>, or a throw.  Each item, already wrapped
  by the parent, is wrapped again with the options of the collection.
\<close>

function forEach_loop ::
  "ElementHandle list \<Rightarrow> LaunchOptions \<Rightarrow> (ElementHandle \<Rightarrow> nat \<Rightarrow> 's \<Rightarrow> maybe_error + 's)
     \<Rightarrow> nat \<Rightarrow> 's \<Rightarrow> maybe_error + 's" where
  "forEach_loop items opts cb i s =
     (if i < length items then
        (case wrapElementHandle (Some (el_handle (items ! i))) opts of
           Inl e \<Rightarrow> Inl (Some e)
         | Inr w \<Rightarrow>
             (case cb w i s of
                Inl x \<Rightarrow> Inl x
              | Inr s' \<Rightarrow> forEach_loop items opts cb (i + 1) s'))
      else Inr s)"
  by pat_completeness auto
termination
  by (relation "measure (\<lambda>(items, opts, cb, i, s). length items - i)") auto

declare forEach_loop.simps [simp del]

definition forEach ::
  "runtime \<Rightarrow> ElementHandles \<Rightarrow> (ElementHandle \<Rightarrow> nat \<Rightarrow> 's \<Rightarrow> maybe_error + 's) \<Rightarrow> 's \<Rightarrow> 's task" where
  "forEach rt this cb s t =
     (case parent_dollar_dollar rt (parent this) (selector this) t of
        (Rejected x, d) \<Rightarrow> (Rejected x, d)
      | (Fulfilled items, d) \<Rightarrow>
          (case forEach_loop items (options this) cb 0 s of
             Inl x \<Rightarrow> (Rejected x, d)
           | Inr s' \<Rightarrow> (Fulfilled s', d)))"

section \<open>What a wrapped object hands out\<close>

text \<open>
  The wrapped objects of the library, and the relation "an operation of \<open>x\<close> returned
  \<open>y\<close>, or passed \<open>y\<close> to its callback".  For \<^verbatim>\<open>forEach\<close> the callback collects
  the elements it is called with; for \<^verbatim>\<open>map\<close> it returns the element it is given.
\<close>

datatype wrapped =
    WBrowser Browser
  | WPage Page
  | WElement ElementHandle
  | WCollection ElementHandles

fun config :: "wrapped \<Rightarrow> LaunchOptions" where
  "config (WBrowser b) = br_options b"
| "config (WPage p) = pg_options p"
| "config (WElement e) = el_options e"
| "config (WCollection c) = options c"

inductive creates :: "runtime \<Rightarrow> wrapped \<Rightarrow> wrapped \<Rightarrow> bool" for rt :: runtime where
  by_newPage:
    "newPage rt b t = (Fulfilled p, d) \<Longrightarrow> creates rt (WBrowser b) (WPage p)"
| by_page_dollar:
    "page_dollar rt p sel t = (Fulfilled e, d) \<Longrightarrow> creates rt (WPage p) (WElement e)"
| by_page_dollar_dollar:
    "page_dollar_dollar rt p sel t = (Fulfilled es, d) \<Longrightarrow> e \<in> set es
       \<Longrightarrow> creates rt (WPage p) (WElement e)"
| by_page_dollar_dollar_lazy:
    "page_dollar_dollar_lazy p sel t = (Fulfilled c, d) \<Longrightarrow> creates rt (WPage p) (WCollection c)"
| by_elem_dollar:
    "elem_dollar rt el sel t = (Fulfilled e, d) \<Longrightarrow> creates rt (WElement el) (WElement e)"
| by_elem_dollar_dollar:
    "elem_dollar_dollar rt el sel t = (Fulfilled es, d) \<Longrightarrow> e \<in> set es
       \<Longrightarrow> creates rt (WElement el) (WElement e)"
| by_elem_dollar_dollar_lazy:
    "elem_dollar_dollar_lazy el sel t = (Fulfilled c, d) \<Longrightarrow> creates rt (WElement el) (WCollection c)"
| by_get:
    "get rt c index t = (Fulfilled e, d) \<Longrightarrow> creates rt (WCollection c) (WElement e)"
| by_forEach:
    "forEach rt c (\<lambda>el i seen. Inr (seen @ [el])) [] t = (Fulfilled es, d) \<Longrightarrow> e \<in> set es
       \<Longrightarrow> creates rt (WCollection c) (WElement e)"
| by_map:
    "map_lazy rt c (\<lambda>el u. (Fulfilled el, 0)) t = (Fulfilled es, d) \<Longrightarrow> e \<in> set es
       \<Longrightarrow> creates rt (WCollection c) (WElement e)"

text \<open>The objects obtained, in any number of steps, from a wrapped browser.\<close>

inductive derived :: "runtime \<Rightarrow> Browser \<Rightarrow> wrapped \<Rightarrow> bool" for rt :: runtime and b :: Browser where
  root: "derived rt b (WBrowser b)"
| step: "derived rt b x \<Longrightarrow> creates rt x y \<Longrightarrow> derived rt b y"

text \<open>
  The options of the parent of a collection, and the invariant of the derived objects: an
  object carries the given options, and so does the parent of a collection.
\<close>

definition parent_options :: "parent \<Rightarrow> LaunchOptions" where
  "parent_options p = (case p of PageParent pg \<Rightarrow> pg_options pg | ElementParent el \<Rightarrow> el_options el)"

definition inherits :: "LaunchOptions \<Rightarrow> wrapped \<Rightarrow> bool" where
  "inherits opts x =
     (config x = opts \<and> (case x of WCollection c \<Rightarrow> parent_options (parent c) = opts | _ \<Rightarrow> True))"

section \<open>The three loops as one\<close>

text \<open>
  The loops of \<^verbatim>\<open>shouldEqual\<close>, \<^verbatim>\<open>shouldMatch\<close> and \<^verbatim>\<open>shouldHaveCount\<close> differ in the
  check they run.  \<open>poll\<close> is the loop with the check, and the test "the deadline is
  ahead", as parameters; the lemmas below show that each loop of the source is an
  instance, so that a property of the loop is proved once.
\<close>

partial_function (option) poll ::
  "(int \<Rightarrow> maybe_error settled \<times> nat) \<Rightarrow> (int \<Rightarrow> nat) \<Rightarrow> (int \<Rightarrow> bool) \<Rightarrow> maybe_error \<Rightarrow> int
     \<Rightarrow> (unit settled \<times> int) option" where
  "poll check lag ahead err now =
     (if ahead now then
        (case check now of
           (Rejected x, d) \<Rightarrow> Some (Rejected x, now + int d)
         | (Fulfilled None, d) \<Rightarrow> Some (Fulfilled (), now + int d)
         | (Fulfilled (Some e), d) \<Rightarrow>
             poll check lag ahead (Some e) (now + int d + int (100 + lag (now + int d))))
      else Some (Rejected err, now))"

text \<open>One check of \<^verbatim>\<open>shouldHaveCount\<close>: the query and the comparison of the size.\<close>

definition count_check ::
  "runtime \<Rightarrow> ElementHandles \<Rightarrow> js_number \<Rightarrow> int \<Rightarrow> maybe_error settled \<times> nat" where
  "count_check rt this count now =
     (case parent_dollar_dollar rt (parent this) (selector this) now of
        (Rejected x, d) \<Rightarrow> (Rejected x, d)
      | (Fulfilled items, d) \<Rightarrow>
          (Fulfilled (if Num (of_nat (length items)) \<noteq> count
                      then Some (Error (count_message rt count (length items))) else None), d))"

section \<open>A page to run the library on\<close>

text \<open>
  A runtime for the scenarios: the text of every element is \<^verbatim>\<open>Loading...\<close> and becomes
  \<^verbatim>\<open>About google\<close> at 300 ms; an element has the class \<^verbatim>\<open>btn\<close>, the value \<^verbatim>\<open>foo\<close> and
  no other attribute; \<^verbatim>\<open>$("a")\<close> finds an element and no other selector does; a list has
  five items and three more from 1000 ms on.  Every call of the driver takes 5 ms, a timer
  fires 1 ms late, and the clock does not move between the two readings at the start of a
  polling function.  The regular expression engine knows the patterns made of letters,
  digits and spaces, which match wherever they occur in the string, and refuses every
  other pattern, among them the unterminated group \<^verbatim>\<open>(\<close>.
\<close>

definition literal_pattern :: "string \<Rightarrow> bool" where
  "literal_pattern s =
     list_all (\<lambda>c. c \<in> set ''abcdefghijklmnopqrstuvwxyzABCDEFGHIJKLMNOPQRSTUVWXYZ0123456789 '') s"

definition demo_RegExp :: "string \<Rightarrow> error + regexp" where
  "demo_RegExp s =
     (if literal_pattern s then Inr \<lparr>re_source = s, re_flags = [], re_test = sublist s\<rparr>
      else Inl (SyntaxError (''Invalid regular expression: /'' @ s @ ''/'')))"

definition demo_rt :: runtime where
  "demo_rt =
     \<lparr>evaluate_textContent =
        (\<lambda>n t. (Fulfilled (Some (if t < 300 then ''Loading...'' else ''About google'')), 5)),
      evaluate_getAttribute =
        (\<lambda>n a t. (Fulfilled (if a = ''class'' then Some ''btn''
                               else if a = ''value'' then Some ''foo'' else None), 5)),
      driver_query = (\<lambda>sc sel t. (Fulfilled (if sel = ''a'' then Some 1 else None), 5)),
      driver_query_all =
        (\<lambda>sc sel t. (Fulfilled (if t < 1000 then [1, 2, 3, 4, 5]
                                  else [1, 2, 3, 4, 5, 6, 7, 8]), 5)),
      driver_newPage = (\<lambda>b t. (Fulfilled 0, 50)),
      orgLaunch = (\<lambda>t. (Fulfilled 0, 500)),
      timer_lag = (\<lambda>t. 1),
      sync_lag = (\<lambda>t. 0),
      RegExp = demo_RegExp,
      Number_toString = (\<lambda>q. ''?'')\<rparr>"



definition demo_element :: "js_number option \<Rightarrow> ElementHandle" where
  "demo_element timeout = \<lparr>el_handle = 1, el_options = \<lparr>matchingTimeout = timeout\<rparr>\<rparr>"

definition demo_list :: "js_number option \<Rightarrow> ElementHandles" where
  "demo_list timeout =
     \<lparr>selector = ''ul li'', options = \<lparr>matchingTimeout = timeout\<rparr>,
      parent = PageParent \<lparr>pg_page = 0, pg_options = \<lparr>matchingTimeout = timeout\<rparr>\<rparr>\<rparr>"

text \<open>A matcher of the caller's that finds every element matching, at once.\<close>

definition always_matches :: Matcher where
  "always_matches rt el expval t = (Fulfilled None, 0)"

text \<open>A predicate for \<^verbatim>\<open>createMatcher\<close>: the attribute is present.\<close>

definition has_class :: "string option \<Rightarrow> maybe_error + bool" where
  "has_class v = Inr (v \<noteq> None)"

section \<open>Properties of the matchers\<close>

text \<open>
  A string sits inside every message that is built around it.
\<close>

lemma compare_with_same: "compare_with noun (Str s) (Some s) = None"
  by (simp add: compare_with_def)

lemma compare_with_differs:
  assumes "actual \<noteq> Some s"
  shows "\<exists>msg. compare_with noun (Str s) actual = Some (UnmatchError msg)
           \<and> sublist s msg \<and> sublist (js_string actual) msg"
proof -
  let ?pre = "''Failed to match with element '' @ noun @ ''. Expected '' @ noun @ '' is \"''"
  let ?mid = "''\", but was \"''"
  let ?post = "''\" appeared.''"
  let ?msg = "?pre @ s @ ?mid @ js_string actual @ ?post"
  have 1: "compare_with noun (Str s) actual = Some (UnmatchError ?msg)"
    using assms by (auto simp: compare_with_def)
  have 2: "sublist s ?msg"
    unfolding sublist_def by blast
  have "?msg = (?pre @ s @ ?mid) @ js_string actual @ ?post" by simp
  then have 3: "sublist (js_string actual) ?msg"
    unfolding sublist_def by blast
  from 1 2 3 show ?thesis by blast
qed


text \<open>
  Claim C1.  Against a literal string each of \<^verbatim>\<open>Text\<close>, \<^verbatim>\<open>Value\<close>, \<^verbatim>\<open>Class\<close>
  and \<^verbatim>\<open>Style\<close> returns no error when what it read from the element (text content,
  \<^verbatim>\<open>value\<close>, \<^verbatim>\<open>class\<close> or \<^verbatim>\<open>style\<close> attribute) is that string, and otherwise an
  \<^verbatim>\<open>UnmatchError\<close> whose message contains the expected string and the value read, as a
  template literal renders it (\<^verbatim>\<open>null\<close> for an absent attribute).  The reading itself
  is the driver's: the statement is about a reading that succeeded.
\<close>

theorem matchers_on_literal:
  "(el_text rt el t = (Fulfilled actual, d) \<longrightarrow>
      (actual = Some s \<longrightarrow> Text rt el (Str s) t = (Fulfilled None, d)) \<and>
      (actual \<noteq> Some s \<longrightarrow>
         (\<exists>msg. Text rt el (Str s) t = (Fulfilled (Some (UnmatchError msg)), d)
            \<and> sublist s msg \<and> sublist (js_string actual) msg)))
   \<and> (el_value rt el t = (Fulfilled actual, d) \<longrightarrow>
      (actual = Some s \<longrightarrow> Value rt el (Str s) t = (Fulfilled None, d)) \<and>
      (actual \<noteq> Some s \<longrightarrow>
         (\<exists>msg. Value rt el (Str s) t = (Fulfilled (Some (UnmatchError msg)), d)
            \<and> sublist s msg \<and> sublist (js_string actual) msg)))
   \<and> (el_class rt el t = (Fulfilled actual, d) \<longrightarrow>
      (actual = Some s \<longrightarrow> Class rt el (Str s) t = (Fulfilled None, d)) \<and>
      (actual \<noteq> Some s \<longrightarrow>
         (\<exists>msg. Class rt el (Str s) t = (Fulfilled (Some (UnmatchError msg)), d)
            \<and> sublist s msg \<and> sublist (js_string actual) msg)))
   \<and> (el_style rt el t = (Fulfilled actual, d) \<longrightarrow>
      (actual = Some s \<longrightarrow> Style rt el (Str s) t = (Fulfilled None, d)) \<and>
      (actual \<noteq> Some s \<longrightarrow>
         (\<exists>msg. Style rt el (Str s) t = (Fulfilled (Some (UnmatchError msg)), d)
            \<and> sublist s msg \<and> sublist (js_string actual) msg)))"
proof (intro conjI impI)
  assume "el_text rt el t = (Fulfilled actual, d)" "actual = Some s"
  then show "Text rt el (Str s) t = (Fulfilled None, d)"
    by (simp add: Text_def compare_with_same)
next
  assume "el_text rt el t = (Fulfilled actual, d)" "actual \<noteq> Some s"
  then show "\<exists>msg. Text rt el (Str s) t = (Fulfilled (Some (UnmatchError msg)), d)
            \<and> sublist s msg \<and> sublist (js_string actual) msg"
    using compare_with_differs [of actual s "''text''"] by (auto simp: Text_def)
next
  assume "el_value rt el t = (Fulfilled actual, d)" "actual = Some s"
  then show "Value rt el (Str s) t = (Fulfilled None, d)"
    by (simp add: Value_def compare_with_same)
next
  assume "el_value rt el t = (Fulfilled actual, d)" "actual \<noteq> Some s"
  then show "\<exists>msg. Value rt el (Str s) t = (Fulfilled (Some (UnmatchError msg)), d)
            \<and> sublist s msg \<and> sublist (js_string actual) msg"
    using compare_with_differs [of actual s "''value''"] by (auto simp: Value_def)
next
  assume "el_class rt el t = (Fulfilled actual, d)" "actual = Some s"
  then show "Class rt el (Str s) t = (Fulfilled None, d)"
    by (simp add: Class_def compare_with_same)
next
  assume "el_class rt el t = (Fulfilled actual, d)" "actual \<noteq> Some s"
  then show "\<exists>msg. Class rt el (Str s) t = (Fulfilled (Some (UnmatchError msg)), d)
            \<and> sublist s msg \<and> sublist (js_string actual) msg"
    using compare_with_differs [of actual s "''class''"] by (auto simp: Class_def)
next
  assume "el_style rt el t = (Fulfilled actual, d)" "actual = Some s"
  then show "Style rt el (Str s) t = (Fulfilled None, d)"
    by (simp add: Style_def compare_with_same)
next
  assume "el_style rt el t = (Fulfilled actual, d)" "actual \<noteq> Some s"
  then show "\<exists>msg. Style rt el (Str s) t = (Fulfilled (Some (UnmatchError msg)), d)
            \<and> sublist s msg \<and> sublist (js_string actual) msg"
    using compare_with_differs [of actual s "''style''"] by (auto simp: Style_def)
qed

text \<open>What the driver of the scenarios reads from an element.\<close>

lemma demo_text: "el_text demo_rt (demo_element x) t =
   (Fulfilled (Some (if t < 300 then ''Loading...'' else ''About google'')), 5)"
  by (simp add: el_text_def demo_rt_def)

lemma demo_attr: "el_attr demo_rt (demo_element x) a t =
   (Fulfilled (if a = ''class'' then Some ''btn'' else if a = ''value'' then Some ''foo'' else None), 5)"
  by (simp add: el_attr_def demo_rt_def)

lemma demo_element_timeout: "matchingTimeout (el_options (demo_element x)) = x"
  by (simp add: demo_element_def)


text \<open>
  The four matchers on the page of the scenarios: the text before and after it changes,
  the \<^verbatim>\<open>value\<close> and \<^verbatim>\<open>class\<close> attributes, and the absent \<^verbatim>\<open>style\<close> attribute.
\<close>

theorem matchers_on_literal_witness:
  "Text demo_rt (demo_element (Some (Num 10000))) (Str ''About google'') 300 = (Fulfilled None, 5)
   \<and> Text demo_rt (demo_element (Some (Num 10000))) (Str ''About google'') 0 =
       (Fulfilled (Some (UnmatchError
          ''Failed to match with element text. Expected text is \"About google\", but was \"Loading...\" appeared.'')), 5)
   \<and> Value demo_rt (demo_element (Some (Num 10000))) (Str ''foo'') 0 = (Fulfilled None, 5)
   \<and> Class demo_rt (demo_element (Some (Num 10000))) (Str ''btn'') 0 = (Fulfilled None, 5)
   \<and> (\<exists>msg. Style demo_rt (demo_element (Some (Num 10000))) (Str ''color: red'') 0 =
         (Fulfilled (Some (UnmatchError msg)), 5)
        \<and> sublist ''color: red'' msg \<and> sublist ''null'' msg)"
proof -
  let ?el = "demo_element (Some (Num 10000))"
  have 1: "Text demo_rt ?el (Str ''About google'') 300 = (Fulfilled None, 5)"
    using matchers_on_literal [of demo_rt ?el 300 "Some ''About google''" 5 "''About google''"]
    by (simp add: demo_text)
  have 2: "Text demo_rt ?el (Str ''About google'') 0 =
       (Fulfilled (Some (UnmatchError
          ''Failed to match with element text. Expected text is \"About google\", but was \"Loading...\" appeared.'')), 5)"
    by (simp add: Text_def demo_text compare_with_def js_string_def)
  have 3: "Value demo_rt ?el (Str ''foo'') 0 = (Fulfilled None, 5)"
    using matchers_on_literal [of demo_rt ?el 0 "Some ''foo''" 5 "''foo''"]
    by (simp add: el_value_def demo_attr)
  have 4: "Class demo_rt ?el (Str ''btn'') 0 = (Fulfilled None, 5)"
    using matchers_on_literal [of demo_rt ?el 0 "Some ''btn''" 5 "''btn''"]
    by (simp add: el_class_def demo_attr)
  have 5: "\<exists>msg. Style demo_rt ?el (Str ''color: red'') 0 =
         (Fulfilled (Some (UnmatchError msg)), 5)
        \<and> sublist ''color: red'' msg \<and> sublist ''null'' msg"
    using matchers_on_literal [of demo_rt ?el 0 None 5 "''color: red''"]
    by (simp add: el_style_def demo_attr js_string_def)
  from 1 2 3 4 5 show ?thesis by blast
qed





section \<open>Properties of the wrapping\<close>


text \<open>
  Claim C4.  The claim is that \<^verbatim>\<open>get(index)\<close> returns the wrapped element at that
  position of the live set, or \<^verbatim>\<open>undefined\<close> out of range.  The code does neither: for
  every collection, index and page it rejects with the \<^verbatim>\<open>TypeError\<close> of
  \<^verbatim>\<open>wrapElementHandle(undefined, ...)\<close>, because the index is applied to the promise.
\<close>

theorem get_rejects:
  "get rt this index t =
     (Rejected (Some (TypeError ''Cannot read properties of undefined (reading __proto__)'')), 0)"
  by (simp add: get_def promise_index_def wrapElementHandle_def)

text \<open>
  The same on the list of the scenarios, whose live set has five elements: index 0 is in
  range and \<^verbatim>\<open>get(0)\<close> is rejected.
\<close>

theorem get_rejects_in_range:
  "parent_dollar_dollar demo_rt (parent (demo_list (Some (Num 10000)))) (selector (demo_list (Some (Num 10000)))) 0
     = (Fulfilled (map (\<lambda>n. \<lparr>el_handle = n, el_options = \<lparr>matchingTimeout = Some (Num 10000)\<rparr>\<rparr>) [1, 2, 3, 4, 5]), 5)
   \<and> get demo_rt (demo_list (Some (Num 10000))) 0 0 =
     (Rejected (Some (TypeError ''Cannot read properties of undefined (reading __proto__)'')), 0)"
  by (simp add: get_def promise_index_def wrapElementHandle_def demo_list_def demo_rt_def
     parent_dollar_dollar_def page_dollar_dollar_def)

text \<open>Elements, and the elements a callback collects, carry the options they were wrapped with.\<close>

lemma wrap_each_options:
  "wrap_each hs opts = Inr ws \<Longrightarrow> e \<in> set ws \<Longrightarrow> el_options e = opts"
proof (induction hs arbitrary: ws)
  case Nil
  then show ?case by simp
next
  case (Cons h hs)
  then show ?case
    by (auto simp: wrapElementHandle_def split: sum.splits)
qed

lemma forEach_loop_collect:
  "forEach_loop items opts (\<lambda>el i seen. Inr (seen @ [el])) i seen = Inr out
     \<Longrightarrow> e \<in> set out \<Longrightarrow> e \<in> set seen \<or> el_options e = opts"
proof (induction items opts "\<lambda>(el::ElementHandle) (i::nat) seen. (Inr (seen @ [el]) :: maybe_error + ElementHandle list)"
         i seen rule: forEach_loop.induct)
  case (1 items opts i s)
  show ?case
  proof (cases "i < length items")
    case False
    with "1.prems" show ?thesis by (simp add: forEach_loop.simps [of items opts _ i s])
  next
    case True
    let ?w = "\<lparr>el_handle = el_handle (items ! i), el_options = opts\<rparr>"
    have w: "wrapElementHandle (Some (el_handle (items ! i))) opts = Inr ?w"
      by (simp add: wrapElementHandle_def)
    from True w "1.prems"(1)
    have next_call: "forEach_loop items opts (\<lambda>el i seen. Inr (seen @ [el])) (i + 1) (s @ [?w]) = Inr out"
      by (simp add: forEach_loop.simps [of items opts _ i s])
    from "1.hyps" [OF True w _ next_call "1.prems"(2)]
    show ?thesis by auto
  qed
qed

lemma forEach_loop_collects:
  "forEach_loop items opts (\<lambda>el i seen. Inr (seen @ [el])) i seen
     = (Inr (seen @ map (\<lambda>it. \<lparr>el_handle = el_handle it, el_options = opts\<rparr>) (drop i items))
          :: maybe_error + ElementHandle list)"
proof (induction items opts "\<lambda>(el::ElementHandle) (i::nat) seen. (Inr (seen @ [el]) :: maybe_error + ElementHandle list)"
         i seen rule: forEach_loop.induct)
  case (1 items opts i s)
  show ?case
  proof (cases "i < length items")
    case False
    then show ?thesis by (simp add: forEach_loop.simps [of items opts _ i s])
  next
    case True
    let ?w = "\<lparr>el_handle = el_handle (items ! i), el_options = opts\<rparr>"
    have w: "wrapElementHandle (Some (el_handle (items ! i))) opts = Inr ?w"
      by (simp add: wrapElementHandle_def)
    from True have d: "drop i items = items ! i # drop (i + 1) items"
      by (simp add: Cons_nth_drop_Suc)
    from True w "1.hyps" [OF True w, of "s @ [?w]"] show ?thesis
      by (simp add: forEach_loop.simps [of items opts _ i s] d)
  qed
qed

lemma forEach_collects:
  "parent_dollar_dollar rt (parent this) (selector this) t = (Fulfilled items, d) \<Longrightarrow>
   forEach rt this (\<lambda>el i seen. Inr (seen @ [el])) [] t
     = (Fulfilled (map (\<lambda>it. \<lparr>el_handle = el_handle it, el_options = options this\<rparr>) items), d)"
  by (simp add: forEach_def forEach_loop_collects)

lemma promise_all_identity:
  "promise_all (map (\<lambda>it. (Fulfilled it, 0)) items) = (Fulfilled items, 0)"
proof -
  have 1: "first_rejection (map (\<lambda>it. (Fulfilled it, 0::nat)) items) = None"
    by (induction items) simp_all
  have 2: "fulfilled_values (map (\<lambda>it. (Fulfilled it, 0::nat)) items) = items"
    by (induction items) simp_all
  have 3: "fold max (map (snd \<circ> (\<lambda>it. (Fulfilled it, 0::nat))) items) 0 = 0"
    by (induction items) simp_all
  show ?thesis by (simp add: promise_all_def 1 2 3)
qed

lemma parent_dollar_dollar_options:
  "parent_dollar_dollar rt p sel t = (Fulfilled es, d) \<Longrightarrow> e \<in> set es
     \<Longrightarrow> el_options e = parent_options p"
  by (cases p)
     (auto simp: parent_dollar_dollar_def page_dollar_dollar_def elem_dollar_dollar_def
        parent_options_def
        split: prod.splits settled.splits sum.splits dest: wrap_each_options)

text \<open>One step of \<open>creates\<close> keeps the invariant; so does any number of steps.\<close>

lemma creates_inherits:
  assumes "creates rt x y" and "inherits opts x"
  shows "inherits opts y"
  using assms
proof (cases rule: creates.cases)
  case (by_newPage b t p d)
  with assms(2) show ?thesis
    by (auto simp: inherits_def newPage_def wrapPage_def split: prod.splits settled.splits)
next
  case (by_page_dollar p sel t e d)
  with assms(2) show ?thesis
    by (auto simp: inherits_def page_dollar_def wrapElementHandle_def
          split: prod.splits settled.splits sum.splits option.splits)
next
  case (by_page_dollar_dollar p sel t es d e)
  with assms(2) show ?thesis
    by (auto simp: inherits_def page_dollar_dollar_def
          split: prod.splits settled.splits sum.splits dest: wrap_each_options)
next
  case (by_page_dollar_dollar_lazy p sel t c d)
  with assms(2) show ?thesis
    by (auto simp: inherits_def page_dollar_dollar_lazy_def parent_options_def)
next
  case (by_elem_dollar el sel t e d)
  with assms(2) show ?thesis
    by (auto simp: inherits_def elem_dollar_def wrapElementHandle_def
          split: prod.splits settled.splits sum.splits option.splits)
next
  case (by_elem_dollar_dollar el sel t es d e)
  with assms(2) show ?thesis
    by (auto simp: inherits_def elem_dollar_dollar_def
          split: prod.splits settled.splits sum.splits dest: wrap_each_options)
next
  case (by_elem_dollar_dollar_lazy el sel t c d)
  with assms(2) show ?thesis
    by (auto simp: inherits_def elem_dollar_dollar_lazy_def parent_options_def)
next
  case (by_get c index t e d)
  with assms(2) show ?thesis
    by (auto simp: inherits_def get_def promise_index_def wrapElementHandle_def)
next
  case (by_forEach c t es d e)
  from by_forEach(3) obtain items where
    out: "forEach_loop items (options c) (\<lambda>el i seen. Inr (seen @ [el])) 0 [] = Inr es"
    by (auto simp: forEach_def split: prod.splits settled.splits sum.splits)
  from forEach_loop_collect [OF out by_forEach(4)] have "el_options e = options c" by simp
  with by_forEach(1,2) assms(2) show ?thesis by (simp add: inherits_def)
next
  case (by_map c t es d e)
  from by_map(3) obtain items d0 where
    q: "parent_dollar_dollar rt (parent c) (selector c) t = (Fulfilled items, d0)" and "es = items"
    by (auto simp: map_lazy_def promise_all_identity split: prod.splits settled.splits)
  with by_map(4) have "el_options e = parent_options (parent c)"
    using parent_dollar_dollar_options by blast
  with by_map(1,2) assms(2) show ?thesis by (simp add: inherits_def)
qed

lemma derived_inherits: "derived rt b x \<Longrightarrow> inherits (br_options b) x"
proof (induction rule: derived.induct)
  case root
  show ?case by (simp add: inherits_def)
next
  case (step x y)
  then show ?case by (blast intro: creates_inherits)
qed

text \<open>
  Claim C8.  Every wrapped object obtained, in any number of steps, from a wrapped browser
  (pages from \<^verbatim>\<open>newPage\<close>, elements from \<^verbatim>\<open>$\<close> and \<^verbatim>\<open>$$\<close>, collections from
  \<^verbatim>\<open>$$lazy\<close>, elements from \<^verbatim>\<open>get\<close>, \<^verbatim>\<open>forEach\<close> and \<^verbatim>\<open>map\<close>) carries the options
  of that browser, and whatever it creates carries the options it carries itself.  The
  options are a value handed on: no operation returns a changed one.
\<close>

theorem configuration_inherited:
  assumes "derived rt b x"
  shows "config x = br_options b \<and> (\<forall>y. creates rt x y \<longrightarrow> config y = config x)"
proof -
  from assms have x: "inherits (br_options b) x" by (rule derived_inherits)
  then have "\<forall>y. creates rt x y \<longrightarrow> inherits (br_options b) y"
    by (blast intro: creates_inherits)
  with x show ?thesis by (simp add: inherits_def)
qed

text \<open>The list of the scenarios as the page of a launched browser hands it out.\<close>

lemma demo_list_items:
  "parent_dollar_dollar demo_rt (parent (demo_list x)) (selector (demo_list x)) u =
     (Fulfilled (map (\<lambda>n. \<lparr>el_handle = n, el_options = \<lparr>matchingTimeout = x\<rparr>\<rparr>)
        (if u < 1000 then [1, 2, 3, 4, 5] else [1, 2, 3, 4, 5, 6, 7, 8])), 5)"
  by (simp add: demo_list_def demo_rt_def parent_dollar_dollar_def page_dollar_dollar_def
        wrapElementHandle_def)

text \<open>
  From \<^verbatim>\<open>launch()\<close> to an element that \<^verbatim>\<open>forEach\<close> passes to its callback, by way of
  \<^verbatim>\<open>newPage\<close> and \<^verbatim>\<open>$$lazy\<close>: the element carries the default of the launch.
\<close>

theorem configuration_inherited_witness:
  "derived demo_rt \<lparr>br_browser = 0, br_options = \<lparr>matchingTimeout = Some (Num 10000)\<rparr>\<rparr>
      (WElement \<lparr>el_handle = 3, el_options = \<lparr>matchingTimeout = Some (Num 10000)\<rparr>\<rparr>)
   \<and> config (WElement \<lparr>el_handle = 3, el_options = \<lparr>matchingTimeout = Some (Num 10000)\<rparr>\<rparr>)
       = \<lparr>matchingTimeout = Some (Num 10000)\<rparr>
   \<and> launch demo_rt None 0
       = (Fulfilled \<lparr>br_browser = 0, br_options = \<lparr>matchingTimeout = Some (Num 10000)\<rparr>\<rparr>, 500)"
proof -
  let ?o = "\<lparr>matchingTimeout = Some (Num 10000)\<rparr>"
  let ?b = "\<lparr>br_browser = 0, br_options = ?o\<rparr>"
  let ?p = "\<lparr>pg_page = 0, pg_options = ?o\<rparr>"
  let ?c = "demo_list (Some (Num 10000))"
  let ?e = "\<lparr>el_handle = 3, el_options = ?o\<rparr>"
  have "newPage demo_rt ?b 500 = (Fulfilled ?p, 50)"
    by (simp add: newPage_def demo_rt_def wrapPage_def)
  then have 1: "creates demo_rt (WBrowser ?b) (WPage ?p)" by (rule by_newPage)
  have "page_dollar_dollar_lazy ?p ''ul li'' 550 = (Fulfilled ?c, 0)"
    by (simp add: page_dollar_dollar_lazy_def demo_list_def)
  then have 2: "creates demo_rt (WPage ?p) (WCollection ?c)" by (rule by_page_dollar_dollar_lazy)
  have "forEach demo_rt ?c (\<lambda>el i seen. Inr (seen @ [el])) [] 550
      = (Fulfilled (map (\<lambda>n. \<lparr>el_handle = n, el_options = ?o\<rparr>) [1, 2, 3, 4, 5]), 5)"
    using forEach_collects [OF demo_list_items [of "Some (Num 10000)" 550]]
    by (simp add: demo_list_def)
  then have 3: "creates demo_rt (WCollection ?c) (WElement ?e)"
    by (rule by_forEach) simp
  from root [of demo_rt ?b] 1 2 3 have d: "derived demo_rt ?b (WElement ?e)"
    by (blast intro: step)
  from configuration_inherited [OF d] have "config (WElement ?e) = ?o" by simp
  moreover have "launch demo_rt None 0 = (Fulfilled ?b, 500)"
    by (simp add: launch_def demo_rt_def wrapBrowser_def)
  ultimately show ?thesis using d by blast
qed

text \<open>
  Claim C6, as amended.  \<^verbatim>\<open>launch\<close> takes an optional options object.  Without one, the
  options of the browser, and of every object derived from it, have \<^verbatim>\<open>matchingTimeout\<close>
  10000.  With one, that object is used as it is, for the browser and for every object
  derived from it: no default is filled in for a field it lacks.
\<close>

theorem launch_options:
  assumes "orgLaunch rt t = (Fulfilled browser, d)"
  shows "launch rt None t = (Fulfilled (wrapBrowser browser \<lparr>matchingTimeout = Some (Num 10000)\<rparr>), d)
       \<and> launch rt (Some given) t = (Fulfilled (wrapBrowser browser given), d)
       \<and> (\<forall>x. derived rt (wrapBrowser browser \<lparr>matchingTimeout = Some (Num 10000)\<rparr>) x
              \<longrightarrow> matchingTimeout (config x) = Some (Num 10000))
       \<and> (\<forall>x. derived rt (wrapBrowser browser given) x \<longrightarrow> config x = given)"
proof (intro conjI allI impI)
  from assms
  show "launch rt None t = (Fulfilled (wrapBrowser browser \<lparr>matchingTimeout = Some (Num 10000)\<rparr>), d)"
    by (simp add: launch_def)
  from assms show "launch rt (Some given) t = (Fulfilled (wrapBrowser browser given), d)"
    by (simp add: launch_def)
  show "matchingTimeout (config x) = Some (Num 10000)"
    if "derived rt (wrapBrowser browser \<lparr>matchingTimeout = Some (Num 10000)\<rparr>) x" for x
    using derived_inherits [OF that] by (simp add: inherits_def wrapBrowser_def)
  show "config x = given" if "derived rt (wrapBrowser browser given) x" for x
    using derived_inherits [OF that] by (simp add: inherits_def wrapBrowser_def)
qed

text \<open>Both cases on the driver of the scenarios.\<close>

theorem launch_options_witness:
  "launch demo_rt None 0 = (Fulfilled \<lparr>br_browser = 0, br_options = \<lparr>matchingTimeout = Some (Num 10000)\<rparr>\<rparr>, 500)
   \<and> launch demo_rt (Some \<lparr>matchingTimeout = Some (Num 500)\<rparr>) 0
       = (Fulfilled \<lparr>br_browser = 0, br_options = \<lparr>matchingTimeout = Some (Num 500)\<rparr>\<rparr>, 500)
   \<and> matchingTimeout (config (WBrowser \<lparr>br_browser = 0, br_options = \<lparr>matchingTimeout = Some (Num 10000)\<rparr>\<rparr>))
       = Some (Num 10000)"
proof -
  have l: "orgLaunch demo_rt 0 = (Fulfilled 0, 500)" by (simp add: demo_rt_def)
  note inst = launch_options [OF l, of "\<lparr>matchingTimeout = Some (Num 500)\<rparr>"]
  have "derived demo_rt (wrapBrowser 0 \<lparr>matchingTimeout = Some (Num 10000)\<rparr>)
          (WBrowser (wrapBrowser 0 \<lparr>matchingTimeout = Some (Num 10000)\<rparr>))"
    by (rule root)
  with inst have "matchingTimeout (config (WBrowser (wrapBrowser 0 \<lparr>matchingTimeout = Some (Num 10000)\<rparr>)))
      = Some (Num 10000)" by blast
  with inst show ?thesis by (simp add: wrapBrowser_def)
qed

text \<open>
  The claim as stated fails: with an options object that lacks \<^verbatim>\<open>matchingTimeout\<close>
  (\<^verbatim>\<open>launch({})\<close>) the timeout of the browser is \<^verbatim>\<open>undefined\<close>, not 10000.
\<close>

theorem launch_without_matchingTimeout:
  "launch demo_rt (Some \<lparr>matchingTimeout = None\<rparr>) 0
     = (Fulfilled \<lparr>br_browser = 0, br_options = \<lparr>matchingTimeout = None\<rparr>\<rparr>, 500)
   \<and> matchingTimeout (br_options \<lparr>br_browser = 0, br_options = \<lparr>matchingTimeout = None\<rparr>\<rparr>)
       \<noteq> Some (Num 10000)"
  by (simp add: launch_def demo_rt_def wrapBrowser_def)

section \<open>Properties of the polling assertions\<close>

text \<open>
  Two partial results are equal when each is defined wherever the other is, with the same value.
\<close>

lemma option_eqI:
  assumes "\<And>y. a = Some y \<Longrightarrow> b = Some y" and "\<And>y. b = Some y \<Longrightarrow> a = Some y"
  shows "a = (b :: 'a option)"
proof (cases a)
  case None
  with assms(2) show ?thesis by (cases b) auto
next
  case (Some y)
  with assms(1) show ?thesis by simp
qed

text \<open>Each loop of the source is the loop \<open>poll\<close> with its own check.\<close>

lemma shouldEqual_loop_to_poll:
  assumes "shouldEqual_loop rt el m expval start err now = Some y"
  shows "poll (m rt el expval) (timer_lag rt)
           (before_deadline start (matchingTimeout (el_options el))) err now = Some y"
proof (rule shouldEqual_loop.raw_induct
    [where P = "\<lambda>rt el m expval start err now y.
       poll (m rt el expval) (timer_lag rt)
         (before_deadline start (matchingTimeout (el_options el))) err now = Some y",
     OF _ assms], goal_cases)
  case (1 loop rt el m expval start err now y)
  then show ?case
    by (subst poll.simps)
       (auto simp: sleep_def split: if_splits prod.splits settled.splits option.splits)
qed

lemma poll_to_shouldEqual_loop:
  assumes "poll (m rt el expval) (timer_lag rt)
             (before_deadline start (matchingTimeout (el_options el))) err now = Some y"
  shows "shouldEqual_loop rt el m expval start err now = Some y"
proof (rule poll.raw_induct
    [where P = "\<lambda>check lag ahead err now y.
       check = m rt el expval \<and> lag = timer_lag rt
       \<and> ahead = before_deadline start (matchingTimeout (el_options el))
       \<longrightarrow> shouldEqual_loop rt el m expval start err now = Some y",
     OF _ assms, rule_format], goal_cases)
  case (1 loop check lag ahead err now y)
  then show ?case
    by (subst shouldEqual_loop.simps)
       (auto simp: sleep_def split: if_splits prod.splits settled.splits option.splits)
qed simp

lemma shouldEqual_loop_poll:
  "shouldEqual_loop rt el m expval start err now =
     poll (m rt el expval) (timer_lag rt)
       (before_deadline start (matchingTimeout (el_options el))) err now"
  by (rule option_eqI) (auto intro: shouldEqual_loop_to_poll poll_to_shouldEqual_loop)

lemma shouldMatch_loop_to_poll:
  assumes "shouldMatch_loop rt el m r start err now = Some y"
  shows "poll (m rt el (Re r)) (timer_lag rt)
           (before_deadline start (matchingTimeout (el_options el))) err now = Some y"
proof (rule shouldMatch_loop.raw_induct
    [where P = "\<lambda>rt el m r start err now y.
       poll (m rt el (Re r)) (timer_lag rt)
         (before_deadline start (matchingTimeout (el_options el))) err now = Some y",
     OF _ assms], goal_cases)
  case (1 loop rt el m r start err now y)
  then show ?case
    by (subst poll.simps)
       (auto simp: sleep_def split: if_splits prod.splits settled.splits option.splits)
qed

lemma poll_to_shouldMatch_loop:
  assumes "poll (m rt el (Re r)) (timer_lag rt)
             (before_deadline start (matchingTimeout (el_options el))) err now = Some y"
  shows "shouldMatch_loop rt el m r start err now = Some y"
proof (rule poll.raw_induct
    [where P = "\<lambda>check lag ahead err now y.
       check = m rt el (Re r) \<and> lag = timer_lag rt
       \<and> ahead = before_deadline start (matchingTimeout (el_options el))
       \<longrightarrow> shouldMatch_loop rt el m r start err now = Some y",
     OF _ assms, rule_format], goal_cases)
  case (1 loop check lag ahead err now y)
  then show ?case
    by (subst shouldMatch_loop.simps)
       (auto simp: sleep_def split: if_splits prod.splits settled.splits option.splits)
qed simp

lemma shouldMatch_loop_poll:
  "shouldMatch_loop rt el m r start err now =
     poll (m rt el (Re r)) (timer_lag rt)
       (before_deadline start (matchingTimeout (el_options el))) err now"
  by (rule option_eqI) (auto intro: shouldMatch_loop_to_poll poll_to_shouldMatch_loop)

lemma count_check_Fulfilled:
  "parent_dollar_dollar rt (parent this) (selector this) u = (Fulfilled items, d) \<Longrightarrow>
     count_check rt this count u =
       (Fulfilled (if Num (of_nat (length items)) \<noteq> count
                   then Some (Error (count_message rt count (length items))) else None), d)"
  by (simp add: count_check_def)

lemma count_check_Rejected:
  "parent_dollar_dollar rt (parent this) (selector this) u = (Rejected x, d) \<Longrightarrow>
     count_check rt this count u = (Rejected x, d)"
  by (simp add: count_check_def)



lemma shouldHaveCount_loop_to_poll:
  assumes "shouldHaveCount_loop rt this count start err now = Some y"
  shows "poll (count_check rt this count) (timer_lag rt)
           (before_deadline start (matchingTimeout (options this))) err now = Some y"
proof (rule shouldHaveCount_loop.raw_induct
    [where P = "\<lambda>rt this count start err now y.
       poll (count_check rt this count) (timer_lag rt)
         (before_deadline start (matchingTimeout (options this))) err now = Some y",
     OF _ assms], goal_cases)
  case (1 loop rt this count start err now y)
  obtain r d where rd: "parent_dollar_dollar rt (parent this) (selector this) now = (r, d)"
    by (cases "parent_dollar_dollar rt (parent this) (selector this) now")
  show ?case
  proof (cases r)
    case (Rejected x)
    with rd 1(2) count_check_Rejected [of rt this now x d count] show ?thesis
      by (subst poll.simps) (auto split: if_splits)
  next
    case (Fulfilled items)
    with rd 1 count_check_Fulfilled [of rt this now items d count] show ?thesis
      by (subst poll.simps) (auto simp: sleep_def split: if_splits)
  qed
qed

lemma poll_to_shouldHaveCount_loop:
  assumes "poll (count_check rt this count) (timer_lag rt)
             (before_deadline start (matchingTimeout (options this))) err now = Some y"
  shows "shouldHaveCount_loop rt this count start err now = Some y"
proof (rule poll.raw_induct
    [where P = "\<lambda>check lag ahead err now y.
       check = count_check rt this count \<and> lag = timer_lag rt
       \<and> ahead = before_deadline start (matchingTimeout (options this))
       \<longrightarrow> shouldHaveCount_loop rt this count start err now = Some y",
     OF _ assms, rule_format], goal_cases)
  case (1 loop check lag ahead err now y)
  obtain r d where rd: "parent_dollar_dollar rt (parent this) (selector this) now = (r, d)"
    by (cases "parent_dollar_dollar rt (parent this) (selector this) now")
  show ?case
  proof (cases r)
    case (Rejected x)
    with rd 1 count_check_Rejected [of rt this now x d count] show ?thesis
      by (subst shouldHaveCount_loop.simps) (auto split: if_splits)
  next
    case (Fulfilled items)
    with rd 1 count_check_Fulfilled [of rt this now items d count] show ?thesis
      by (subst shouldHaveCount_loop.simps) (auto simp: sleep_def split: if_splits)
  qed
qed simp

lemma shouldHaveCount_loop_poll:
  "shouldHaveCount_loop rt this count start err now =
     poll (count_check rt this count) (timer_lag rt)
       (before_deadline start (matchingTimeout (options this))) err now"
  by (rule option_eqI) (auto intro: shouldHaveCount_loop_to_poll poll_to_shouldHaveCount_loop)

text \<open>
  When the test of the loop finds the deadline passed, the loop throws the stored error without a check.
\<close>

lemma poll_closed:
  "\<not> ahead now \<Longrightarrow> poll check lag ahead err now = Some (Rejected err, now)"
  by (simp add: poll.simps)







text \<open>
  A timeout that is undefined, \<^verbatim>\<open>NaN\<close>, zero or negative leaves no time before the deadline.
\<close>

lemma no_time_no_deadline:
  assumes "case timeout of None \<Rightarrow> True | Some (Num q) \<Rightarrow> q \<le> 0 | Some Infinity \<Rightarrow> False
             | Some MinusInfinity \<Rightarrow> True | Some NaN \<Rightarrow> True"
    and "t \<le> u"
  shows "\<not> before_deadline t timeout u"
proof (cases timeout)
  case None
  then show ?thesis by (simp add: before_deadline_def)
next
  case (Some n)
  show ?thesis
  proof (cases n)
    case (Num q)
    with assms(1) Some have "q \<le> 0" by simp
    moreover from assms(2) have "(of_int t :: rat) \<le> of_int u" by simp
    ultimately have "\<not> (of_int u :: rat) < of_int t + q" by linarith
    with Some Num show ?thesis by (simp add: before_deadline_def)
  qed (use assms(1) Some in \<open>simp_all add: before_deadline_def\<close>)
qed

text \<open>
  Claim C9, as amended.  When \<^verbatim>\<open>matchingTimeout\<close> is undefined, \<^verbatim>\<open>NaN\<close>, zero or negative,
  \<^verbatim>\<open>shouldEqual\<close> and \<^verbatim>\<open>shouldHaveCount\<close> are rejected with \<^verbatim>\<open>undefined\<close> by the first test
  of the loop, whatever the matcher and the page are: no check runs, and the call takes the
  time between its two readings of the clock.  So is \<^verbatim>\<open>shouldMatch\<close> when its expected
  value is a regular expression or a string the \<^verbatim>\<open>RegExp\<close> constructor accepts; for a
  string the constructor refuses, \<^verbatim>\<open>shouldMatch\<close> is rejected with the error of the
  constructor instead.
\<close>

theorem no_timeout_no_check:
  assumes "case matchingTimeout opts of None \<Rightarrow> True | Some (Num q) \<Rightarrow> q \<le> 0
             | Some Infinity \<Rightarrow> False | Some MinusInfinity \<Rightarrow> True | Some NaN \<Rightarrow> True"
    and "el_options el = opts" and "options this = opts"
  shows "shouldEqual rt el matcher s t = Some (Rejected None, sync_lag rt t)
       \<and> (\<forall>r. regexp_of rt expval = Inr r \<longrightarrow>
             shouldMatch rt el matcher expval t = Some (Rejected None, sync_lag rt t))
       \<and> (\<forall>e. regexp_of rt expval = Inl e \<longrightarrow>
             shouldMatch rt el matcher expval t = Some (Rejected (Some e), 0))
       \<and> shouldHaveCount rt this count t = Some (Rejected None, sync_lag rt t)"
proof -
  have le: "t \<le> t + int (sync_lag rt t)" by simp
  from assms have closed:
    "\<not> before_deadline t (matchingTimeout (el_options el)) (t + int (sync_lag rt t))"
    "\<not> before_deadline t (matchingTimeout (options this)) (t + int (sync_lag rt t))"
    using no_time_no_deadline [OF _ le, of "matchingTimeout opts"] by simp_all
  note el_closed = poll_closed [where ahead = "before_deadline t (matchingTimeout (el_options el))"
      and now = "t + int (sync_lag rt t)", OF closed(1)]
  note this_closed = poll_closed [where ahead = "before_deadline t (matchingTimeout (options this))"
      and now = "t + int (sync_lag rt t)", OF closed(2)]
  have 1: "shouldEqual rt el matcher s t = Some (Rejected None, sync_lag rt t)"
    by (simp add: shouldEqual_def shouldEqual_loop_poll el_closed)
  have 2: "\<forall>r. regexp_of rt expval = Inr r \<longrightarrow>
      shouldMatch rt el matcher expval t = Some (Rejected None, sync_lag rt t)"
    by (simp add: shouldMatch_def shouldMatch_loop_poll el_closed)
  have 3: "\<forall>e. regexp_of rt expval = Inl e \<longrightarrow>
      shouldMatch rt el matcher expval t = Some (Rejected (Some e), 0)"
    by (simp add: shouldMatch_def)
  have 4: "shouldHaveCount rt this count t = Some (Rejected None, sync_lag rt t)"
    by (simp add: shouldHaveCount_def shouldHaveCount_loop_poll this_closed)
  from 1 2 3 4 show ?thesis by blast
qed

text \<open>The regular expressions and the clock of the scenarios.\<close>

lemma demo_RegExp_group: "demo_RegExp ''('' = Inl (SyntaxError ''Invalid regular expression: /(/'')"
  by (simp add: demo_RegExp_def literal_pattern_def)

lemma demo_RegExp_btn:
  "demo_RegExp ''btn'' = Inr \<lparr>re_source = ''btn'', re_flags = [], re_test = sublist ''btn''\<rparr>"
  by (simp add: demo_RegExp_def literal_pattern_def)

lemma RegExp_demo_rt: "RegExp demo_rt = demo_RegExp"
  by (simp add: demo_rt_def)

lemma demo_sync_lag: "sync_lag demo_rt t = 0"
  by (simp add: demo_rt_def)

lemma demo_regexp_of_btn:
  "regexp_of demo_rt (Str ''btn'')
     = Inr \<lparr>re_source = ''btn'', re_flags = [], re_test = sublist ''btn''\<rparr>"
  by (simp add: regexp_of_def RegExp_demo_rt demo_RegExp_btn)

lemma demo_regexp_of_foo:
  "regexp_of demo_rt (Str ''foo'')
     = Inr \<lparr>re_source = ''foo'', re_flags = [], re_test = sublist ''foo''\<rparr>"
  by (simp add: regexp_of_def RegExp_demo_rt demo_RegExp_def literal_pattern_def)


text \<open>
  With a matcher that would match at once: undefined, zero, \<^verbatim>\<open>NaN\<close> and negative timeouts
  reject with \<^verbatim>\<open>undefined\<close>; a timeout of one millisecond lets the first check run when the
  clock has not moved between the two readings.
\<close>

theorem no_timeout_no_check_witness:
  "shouldEqual demo_rt (demo_element None) always_matches ''anything'' 0 = Some (Rejected None, 0)
   \<and> shouldEqual demo_rt (demo_element (Some (Num 0))) always_matches ''anything'' 0
       = Some (Rejected None, 0)
   \<and> shouldEqual demo_rt (demo_element (Some NaN)) always_matches ''anything'' 0
       = Some (Rejected None, 0)
   \<and> shouldMatch demo_rt (demo_element (Some (Num (- 5)))) always_matches (Str ''btn'') 0
       = Some (Rejected None, 0)
   \<and> shouldHaveCount demo_rt (demo_list None) (Num 5) 0 = Some (Rejected None, 0)
   \<and> shouldEqual demo_rt (demo_element (Some (Num 1))) always_matches ''anything'' 0
       = Some (Fulfilled (), 0)"
proof -
  have a: "shouldEqual demo_rt (demo_element None) always_matches ''anything'' 0
             = Some (Rejected None, 0)"
    "shouldHaveCount demo_rt (demo_list None) (Num 5) 0 = Some (Rejected None, 0)"
    using no_timeout_no_check [of "\<lparr>matchingTimeout = None\<rparr>" "demo_element None" "demo_list None"
        demo_rt always_matches "''anything''" 0 "Str ''btn''" "Num 5"]
    by (simp_all add: demo_element_def demo_list_def demo_sync_lag)
  have b: "shouldEqual demo_rt (demo_element (Some (Num 0))) always_matches ''anything'' 0
             = Some (Rejected None, 0)"
    using no_timeout_no_check [of "\<lparr>matchingTimeout = Some (Num 0)\<rparr>" "demo_element (Some (Num 0))"
        "demo_list (Some (Num 0))" demo_rt always_matches "''anything''" 0 "Str ''btn''" "Num 5"]
    by (simp add: demo_element_def demo_list_def demo_sync_lag)
  have n: "shouldEqual demo_rt (demo_element (Some NaN)) always_matches ''anything'' 0
             = Some (Rejected None, 0)"
    using no_timeout_no_check [of "\<lparr>matchingTimeout = Some NaN\<rparr>" "demo_element (Some NaN)"
        "demo_list (Some NaN)" demo_rt always_matches "''anything''" 0 "Str ''btn''" "Num 5"]
    by (simp add: demo_element_def demo_list_def demo_sync_lag)
  have c: "shouldMatch demo_rt (demo_element (Some (Num (- 5)))) always_matches (Str ''btn'') 0
             = Some (Rejected None, 0)"
    using no_timeout_no_check [of "\<lparr>matchingTimeout = Some (Num (- 5))\<rparr>"
        "demo_element (Some (Num (- 5)))" "demo_list (Some (Num (- 5)))" demo_rt always_matches
        "''anything''" 0 "Str ''btn''" "Num 5"]
    by (simp add: demo_element_def demo_list_def regexp_of_def RegExp_demo_rt demo_RegExp_btn
          demo_sync_lag)
  have d: "shouldEqual demo_rt (demo_element (Some (Num 1))) always_matches ''anything'' 0
             = Some (Fulfilled (), 0)"
    by (simp add: shouldEqual_def shouldEqual_loop.simps demo_element_def before_deadline_def
          always_matches_def demo_sync_lag)
  from a b n c d show ?thesis by blast
qed

text \<open>
  The claim as stated fails for \<^verbatim>\<open>shouldMatch\<close>: with a timeout of zero and the pattern
  \<^verbatim>\<open>(\<close>, the call is rejected with a \<^verbatim>\<open>SyntaxError\<close>, not with \<^verbatim>\<open>undefined\<close>.
\<close>

theorem shouldMatch_invalid_pattern:
  "matchingTimeout (el_options (demo_element (Some (Num 0)))) = Some (Num 0)
   \<and> shouldMatch demo_rt (demo_element (Some (Num 0))) always_matches (Str ''('') 0
       = Some (Rejected (Some (SyntaxError ''Invalid regular expression: /(/'')), 0)
   \<and> shouldMatch demo_rt (demo_element (Some (Num 0))) always_matches (Str ''('') 0
       \<noteq> Some (Rejected None, 0)"
  by (simp add: shouldMatch_def regexp_of_def RegExp_demo_rt demo_RegExp_group demo_element_timeout)
















text \<open>
  A matcher built by \<^verbatim>\<open>createMatcher\<close> is the same function for every expected value.
\<close>

lemma createMatcher_expected: "createMatcher a f rt el e1 = createMatcher a f rt el e2"
  by (rule ext) (simp add: createMatcher_def)

text \<open>
  Claim C10, as amended.  A matcher built by \<^verbatim>\<open>createMatcher\<close> gives the same outcome
  for any two expected values, applied directly and in \<^verbatim>\<open>shouldEqual\<close>.  In
  \<^verbatim>\<open>shouldMatch\<close> it does so for any two expected values that are, or compile to, regular
  expressions; an expected string that the \<^verbatim>\<open>RegExp\<close> constructor refuses rejects the
  call with the error of the constructor.
\<close>

theorem createMatcher_ignores_expected:
  "createMatcher a f rt el e1 t = createMatcher a f rt el e2 t
   \<and> shouldEqual rt el (createMatcher a f) s1 t = shouldEqual rt el (createMatcher a f) s2 t
   \<and> (regexp_of rt e1 = Inr r1 \<and> regexp_of rt e2 = Inr r2 \<longrightarrow>
        shouldMatch rt el (createMatcher a f) e1 t = shouldMatch rt el (createMatcher a f) e2 t)
   \<and> (regexp_of rt e1 = Inl x \<longrightarrow>
        shouldMatch rt el (createMatcher a f) e1 t = Some (Rejected (Some x), 0))"
proof (intro conjI impI)
  show "createMatcher a f rt el e1 t = createMatcher a f rt el e2 t"
    by (simp add: createMatcher_expected [of a f rt el e1 e2])
  show "shouldEqual rt el (createMatcher a f) s1 t = shouldEqual rt el (createMatcher a f) s2 t"
    by (simp add: shouldEqual_def shouldEqual_loop_poll
          createMatcher_expected [of a f rt el "Str s1" "Str s2"])
  show "shouldMatch rt el (createMatcher a f) e1 t = shouldMatch rt el (createMatcher a f) e2 t"
    if "regexp_of rt e1 = Inr r1 \<and> regexp_of rt e2 = Inr r2"
    using that
    by (simp add: shouldMatch_def shouldMatch_loop_poll
          createMatcher_expected [of a f rt el "Re r1" "Re r2"])
  show "shouldMatch rt el (createMatcher a f) e1 t = Some (Rejected (Some x), 0)"
    if "regexp_of rt e1 = Inl x"
    using that by (simp add: shouldMatch_def)
qed

lemma demo_has_class:
  "createMatcher ''class'' has_class demo_rt (demo_element x) e u = (Fulfilled None, 5)"
  by (simp add: createMatcher_def demo_attr has_class_def)

lemma demo_has_class_btn:
  "shouldMatch demo_rt (demo_element (Some (Num 500))) (createMatcher ''class'' has_class)
     (Str ''btn'') 0 = Some (Fulfilled (), 5)"
  by (subst shouldMatch_def, subst shouldMatch_loop.simps)
    (simp add: demo_regexp_of_btn demo_has_class before_deadline_def demo_element_timeout
       demo_sync_lag)

text \<open>Two patterns that compile: the same outcome.\<close>

theorem createMatcher_ignores_expected_witness:
  "shouldMatch demo_rt (demo_element (Some (Num 500))) (createMatcher ''class'' has_class) (Str ''btn'') 0
     = shouldMatch demo_rt (demo_element (Some (Num 500))) (createMatcher ''class'' has_class) (Str ''foo'') 0
   \<and> shouldMatch demo_rt (demo_element (Some (Num 500))) (createMatcher ''class'' has_class) (Str ''btn'') 0
     = Some (Fulfilled (), 5)"
proof -
  have 1: "shouldMatch demo_rt (demo_element (Some (Num 500))) (createMatcher ''class'' has_class) (Str ''btn'') 0
     = shouldMatch demo_rt (demo_element (Some (Num 500))) (createMatcher ''class'' has_class) (Str ''foo'') 0"
    using createMatcher_ignores_expected [of "''class''" has_class demo_rt
        "demo_element (Some (Num 500))" "Str ''btn''" 0 "Str ''foo''" "''btn''" "''foo''"]
    by (simp add: demo_regexp_of_btn demo_regexp_of_foo)
  from 1 demo_has_class_btn show ?thesis ..
qed

text \<open>
  The claim as stated fails in \<^verbatim>\<open>shouldMatch\<close>: with the same built matcher on the same
  element, the expected value \<^verbatim>\<open>btn\<close> fulfils the call and the expected value \<^verbatim>\<open>(\<close>
  rejects it.
\<close>

theorem createMatcher_expected_matters:
  "shouldMatch demo_rt (demo_element (Some (Num 500))) (createMatcher ''class'' has_class) (Str ''btn'') 0
     = Some (Fulfilled (), 5)
   \<and> shouldMatch demo_rt (demo_element (Some (Num 500))) (createMatcher ''class'' has_class) (Str ''('') 0
     = Some (Rejected (Some (SyntaxError ''Invalid regular expression: /(/'')), 0)"
proof
  show "shouldMatch demo_rt (demo_element (Some (Num 500))) (createMatcher ''class'' has_class) (Str ''btn'') 0
     = Some (Fulfilled (), 5)"
    by (rule demo_has_class_btn)
  show "shouldMatch demo_rt (demo_element (Some (Num 500))) (createMatcher ''class'' has_class) (Str ''('') 0
     = Some (Rejected (Some (SyntaxError ''Invalid regular expression: /(/'')), 0)"
    by (simp add: shouldMatch_def regexp_of_def RegExp_demo_rt demo_RegExp_group)
qed











end
